theory Spec2Isabelle
  imports Main
begin

section \<open>Python values, exceptions and effects\<close>

text \<open>
  The exceptions the code catches with \<^verbatim>\<open>except Exception\<close>. \<open>TimeoutError\<close> is
  \<^verbatim>\<open>asyncio.TimeoutError\<close>; \<open>Error msg\<close> stands for every other subclass of
  \<^verbatim>\<open>Exception\<close>. Cancellation of a task (\<^verbatim>\<open>asyncio.CancelledError\<close>, a
  \<^verbatim>\<open>BaseException\<close>) is not represented.
\<close>

datatype exn = TimeoutError | TypeError | Error string

text \<open>
  The outcome of waiting for an awaitable of a collaborator. \<open>Late\<close>: it completes, but
  only after the timeout of an enclosing \<^verbatim>\<open>asyncio.wait_for\<close> has expired; a bare
  \<^verbatim>\<open>await\<close> just returns later. An awaitable that never completes has no value here.
\<close>

datatype wait_outcome = Completes | Late | Raises exn

text \<open>\<^verbatim>\<open>not v\<close> for an optional string: \<^verbatim>\<open>None\<close> and \<^verbatim>\<open>""\<close> are falsy.\<close>

definition truthy :: "string option \<Rightarrow> bool" where
  "truthy v = (case v of None \<Rightarrow> False | Some s \<Rightarrow> s \<noteq> [])"

section \<open>The appointments table behind the Supabase client\<close>

text \<open>
  A row of the table \<^verbatim>\<open>appointments\<close>, as the dictionaries of \<^verbatim>\<open>response.data\<close> have
  it. \<open>appt_id\<close> is the column \<^verbatim>\<open>id\<close> and \<open>appt_user_name\<close> the column
  \<^verbatim>\<open>user_name\<close>; \<open>created_at\<close> is assigned by the store and never written by the code.
\<close>

record appointment =
  appt_id :: nat
  contact_number :: string
  appt_user_name :: string
  slot_time :: string
  details :: string
  status :: string
  created_at :: nat

text \<open>The \<^verbatim>\<open>.eq(column, value)\<close> filters the code builds.\<close>

datatype filter_eq =
    Eq_contact_number string
  | Eq_id nat
  | Eq_slot_time string
  | Eq_status string

fun matches :: "appointment \<Rightarrow> filter_eq \<Rightarrow> bool" where
  "matches r (Eq_contact_number v) = (contact_number r = v)"
| "matches r (Eq_id v) = (appt_id r = v)"
| "matches r (Eq_slot_time v) = (slot_time r = v)"
| "matches r (Eq_status v) = (status r = v)"

text \<open>
  The requests the code sends with \<^verbatim>\<open>.execute()\<close>: a select with filters, the insert of
  \<^verbatim>\<open>create_appointment\<close> (contact, name, slot, details, status), and the two updates.
\<close>

datatype request =
    Select "filter_eq list"
  | Insert string string string string string
  | Update_status string "filter_eq list"
  | Update_slot_time string "filter_eq list"

text \<open>
  The remote store as the client sees it: the rows in insertion order, the next identifier
  and time stamp it assigns, and which requests raise (network or API errors).
\<close>

record supabase =
  rows :: "appointment list"
  next_id :: nat
  clock :: nat
  raises :: "request \<Rightarrow> bool"

definition selected :: "filter_eq list \<Rightarrow> appointment \<Rightarrow> bool" where
  "selected fs r = list_all (matches r) fs"

definition execute :: "supabase \<Rightarrow> request \<Rightarrow> exn + (appointment list \<times> supabase)" where
  "execute c req =
     (if raises c req then Inl (Error ''APIError'')
      else case req of
        Select fs \<Rightarrow> Inr (filter (selected fs) (rows c), c)
      | Insert cn un st de sta \<Rightarrow>
          (let r = \<lparr>appt_id = next_id c, contact_number = cn, appt_user_name = un,
                    slot_time = st, details = de, status = sta, created_at = clock c\<rparr>
           in Inr ([r], c\<lparr>rows := rows c @ [r], next_id := Suc (next_id c),
                            clock := Suc (clock c)\<rparr>))
      | Update_status v fs \<Rightarrow>
          Inr (map (\<lambda>r. r\<lparr>status := v\<rparr>) (filter (selected fs) (rows c)),
               c\<lparr>rows := map (\<lambda>r. if selected fs r then r\<lparr>status := v\<rparr> else r) (rows c)\<rparr>)
      | Update_slot_time v fs \<Rightarrow>
          Inr (map (\<lambda>r. r\<lparr>slot_time := v\<rparr>) (filter (selected fs) (rows c)),
               c\<lparr>rows := map (\<lambda>r. if selected fs r then r\<lparr>slot_time := v\<rparr> else r) (rows c)\<rparr>))"


section \<open>db.py: class Database\<close>

text \<open>\<open>client = None\<close>: the credentials were not found.\<close>

record database =
  client :: "supabase option"

definition db_rows :: "database \<Rightarrow> appointment list" where
  "db_rows d = (case client d of None \<Rightarrow> [] | Some c \<Rightarrow> rows c)"

definition get_appointments :: "database \<Rightarrow> string \<Rightarrow> appointment list \<times> database" where
  "get_appointments d contact =
     (case client d of
        None \<Rightarrow> ([], d)
      | Some c \<Rightarrow>
          (case execute c (Select [Eq_contact_number contact]) of
             Inl e \<Rightarrow> ([], d)
           | Inr (data, c') \<Rightarrow> (data, d\<lparr>client := Some c'\<rparr>)))"

definition create_appointment ::
    "database \<Rightarrow> string \<Rightarrow> string \<Rightarrow> string \<Rightarrow> string \<Rightarrow> appointment list option \<times> database" where
  "create_appointment d contact name slot dets =
     (case client d of
        None \<Rightarrow> (None, d)
      | Some c \<Rightarrow>
          (case execute c (Insert contact name slot dets ''confirmed'') of
             Inl e \<Rightarrow> (None, d)
           | Inr (data, c') \<Rightarrow> (Some data, d\<lparr>client := Some c'\<rparr>)))"

definition cancel_appointment_db :: "database \<Rightarrow> nat \<Rightarrow> appointment list option \<times> database" where
  "cancel_appointment_db d appointment_id =
     (case client d of
        None \<Rightarrow> (None, d)
      | Some c \<Rightarrow>
          (case execute c (Update_status ''cancelled'' [Eq_id appointment_id]) of
             Inl e \<Rightarrow> (None, d)
           | Inr (data, c') \<Rightarrow> (Some data, d\<lparr>client := Some c'\<rparr>)))"

definition update_appointment :: "database \<Rightarrow> nat \<Rightarrow> string \<Rightarrow> appointment list option \<times> database" where
  "update_appointment d appointment_id new_slot =
     (case client d of
        None \<Rightarrow> (None, d)
      | Some c \<Rightarrow>
          (case execute c (Update_slot_time new_slot [Eq_id appointment_id]) of
             Inl e \<Rightarrow> (None, d)
           | Inr (data, c') \<Rightarrow> (Some data, d\<lparr>client := Some c'\<rparr>)))"

definition is_slot_available :: "database \<Rightarrow> string \<Rightarrow> bool \<times> database" where
  "is_slot_available d slot =
     (case client d of
        None \<Rightarrow> (True, d)
      | Some c \<Rightarrow>
          (case execute c (Select [Eq_slot_time slot, Eq_status ''confirmed'']) of
             Inl e \<Rightarrow> (True, d)
           | Inr (data, c') \<Rightarrow> (length data = 0, d\<lparr>client := Some c'\<rparr>)))"

section \<open>The collaborators of the agent\<close>

text \<open>What is published on the room's data channel (the JSON payloads).\<close>

datatype event =
    Tool_call string "(string \<times> string) list"
  | Conversation_summary string "string list" "string option"

text \<open>
  A publication of the local participant: whether \<^verbatim>\<open>track_pub.track\<close> is set, and what
  \<^verbatim>\<open>track.stop()\<close> raises, if anything.
\<close>

record track_publication =
  has_track :: bool
  stop_outcome :: "exn option"

text \<open>
  The room (\<^verbatim>\<open>ctx.room\<close>, which \<^verbatim>\<open>main.py\<close> also stores as \<^verbatim>\<open>agent._room\<close>):
  \<open>connected\<close> is \<^verbatim>\<open>isconnected()\<close>; the outcomes say what \<^verbatim>\<open>publish_data\<close> and
  \<^verbatim>\<open>disconnect\<close> raise, if anything.
\<close>

record room =
  connected :: bool
  track_publications :: "track_publication list"
  publish_outcome :: "exn option"
  disconnect_outcome :: "exn option"

record audio_output =
  flush_outcome :: "exn option"
  wait_for_playout :: wait_outcome

datatype choice_delta = ChoiceDelta (content: "string option")

datatype chat_chunk = ChatChunk (delta: "choice_delta option")

text \<open>
  The language model: from the messages (role, content) of the submitted context to the
  chunks of the stream, or the exception the request or the stream raises.
\<close>

type_synonym llm = "(string \<times> string) list \<Rightarrow> exn + chat_chunk list"

text \<open>
  The \<^verbatim>\<open>AgentSession\<close>: \<open>audio\<close> is \<^verbatim>\<open>output.audio\<close>, \<open>shutdown_outcome\<close> what
  \<^verbatim>\<open>shutdown(drain=True)\<close> raises, \<open>closing_task\<close> the task \<^verbatim>\<open>_closing_task\<close> it
  leaves behind (\<open>None\<close> when the attribute is missing or unset).
\<close>

record session =
  audio :: "audio_output option"
  session_llm :: "llm option"
  shutdown_outcome :: "exn option"
  closing_task :: "wait_outcome option"

text \<open>
  The items of \<^verbatim>\<open>chat_ctx\<close>: a \<^verbatim>\<open>ChatMessage\<close> with its role, its \<^verbatim>\<open>text_content\<close>
  and the boolean entries of \<^verbatim>\<open>extra\<close>, or an item of another class.
\<close>

datatype chat_item =
    ChatMessage (role: string) (text_content: "string option") (extra: "(string \<times> bool) list")
  | OtherItem

text \<open>The calls on collaborators, in the order they are made (a ghost record).\<close>

datatype action =
    Publish_data event
  | Create_task
  | Sleep
  | Flush
  | Wait_for_playout
  | Llm_chat "(string \<times> string) list"
  | Perform_disconnection
  | Session_shutdown
  | Await_closing_task
  | Track_stop nat
  | Room_disconnect

section \<open>agent.py: class BookingAgent\<close>

text \<open>
  \<open>room\<close> is the one room object that \<^verbatim>\<open>main.py\<close> injects both as \<^verbatim>\<open>agent.ctx.room\<close>
  and as \<^verbatim>\<open>agent._room\<close> (\<open>None\<close> for an agent that was only constructed);
  \<open>agent_session\<close> is \<^verbatim>\<open>_agent_session\<close>.
\<close>

record agent =
  db :: database
  user_contact :: "string option"
  user_name :: "string option"
  agent_session :: "session option"
  room :: "room option"
  chat_ctx :: "chat_item list"
  trace :: "action list"

type_synonym 'a prog = "agent \<Rightarrow> (exn + 'a) \<times> agent"

definition ret :: "'a \<Rightarrow> 'a prog" where
  "ret x a = (Inr x, a)"

definition andthen :: "'a prog \<Rightarrow> ('a \<Rightarrow> 'b prog) \<Rightarrow> 'b prog" where
  "andthen m f a = (case m a of (Inl e, a') \<Rightarrow> (Inl e, a') | (Inr x, a') \<Rightarrow> f x a')"

definition try_except :: "'a prog \<Rightarrow> (exn \<Rightarrow> 'a prog) \<Rightarrow> 'a prog" where
  "try_except m h a = (case m a of (Inl e, a') \<Rightarrow> h e a' | (Inr x, a') \<Rightarrow> (Inr x, a'))"

definition call :: "action \<Rightarrow> exn option \<Rightarrow> unit prog" where
  "call act outcome a =
     (case outcome of
        None \<Rightarrow> (Inr (), a\<lparr>trace := trace a @ [act]\<rparr>)
      | Some e \<Rightarrow> (Inl e, a\<lparr>trace := trace a @ [act]\<rparr>))"

definition broadcast_tool_call :: "string \<Rightarrow> (string \<times> string) list \<Rightarrow> unit prog" where
  "broadcast_tool_call tool_name args =
     try_except
       (\<lambda>a. case room a of
               None \<Rightarrow> (Inr (), a)
             | Some r \<Rightarrow>
                 if connected r
                 then call (Publish_data (Tool_call tool_name args)) (publish_outcome r) a
                 else (Inr (), a))
       (\<lambda>e. ret ())"

definition identify_user :: "string \<Rightarrow> string prog" where
  "identify_user contact =
     andthen (broadcast_tool_call ''identify_user'' [(''contact_number'', contact)])
       (\<lambda>_ a. (Inr (''Thank you! I have your contact number '' @ contact
                      @ ''. How can I help you today?''),
                a\<lparr>user_contact := Some contact\<rparr>))"

definition book_appointment :: "string \<Rightarrow> string \<Rightarrow> string prog" where
  "book_appointment slot dets =
     andthen (broadcast_tool_call ''book_appointment'' [(''slot'', slot), (''details'', dets)])
       (\<lambda>_ a.
          if \<not> truthy (user_contact a)
          then (Inr ''I need your contact number before booking. Please provide it using the identify_user tool.'', a)
          else
            let contact = the (user_contact a);
                (existing, d1) = get_appointments (db a) contact
            in if list_ex (\<lambda>appt. slot_time appt = slot \<and> status appt = ''confirmed'') existing
               then (Inr (''You already have an appointment at '' @ slot @ ''.''), a\<lparr>db := d1\<rparr>)
               else
                 let (slot_available, d2) = is_slot_available d1 slot
                 in if \<not> slot_available
                    then (Inr (''I'm sorry, but the slot '' @ slot
                               @ '' is already booked by another customer. Please choose a different time slot.''),
                          a\<lparr>db := d2\<rparr>)
                    else
                      let name = (if truthy (user_name a) then the (user_name a) else ''Unknown'');
                          (result, d3) = create_appointment d2 contact name slot dets
                      in if result \<noteq> None \<and> result \<noteq> Some []
                         then (Inr (''Appointment booked successfully for '' @ slot
                                    @ ''. Your appointment details: '' @ dets @ ''.''),
                               a\<lparr>db := d3\<rparr>)
                         else (Inr ''I'm sorry, I couldn't book the appointment due to a system error.'',
                               a\<lparr>db := d3\<rparr>))"

definition cancel_appointment :: "string \<Rightarrow> string prog" where
  "cancel_appointment slot =
     andthen (broadcast_tool_call ''cancel_appointment'' [(''slot'', slot)])
       (\<lambda>_ a.
          if \<not> truthy (user_contact a)
          then (Inr ''Please provide your phone number.'', a)
          else
            let (appts, d1) = get_appointments (db a) (the (user_contact a))
            in case find (\<lambda>r. slot_time r = slot \<and> status r \<noteq> ''cancelled'') appts of
                 Some target \<Rightarrow>
                   let (result, d2) = cancel_appointment_db d1 (appt_id target)
                   in (Inr (''Appointment at '' @ slot @ '' has been cancelled.''), a\<lparr>db := d2\<rparr>)
               | None \<Rightarrow>
                   (Inr (''I couldn't find an active appointment at '' @ slot @ ''.''), a\<lparr>db := d1\<rparr>))"

definition modify_appointment :: "string \<Rightarrow> string \<Rightarrow> string prog" where
  "modify_appointment old_slot new_slot =
     andthen (broadcast_tool_call ''modify_appointment''
                [(''old_slot'', old_slot), (''new_slot'', new_slot)])
       (\<lambda>_ a.
          if \<not> truthy (user_contact a)
          then (Inr ''Please identify yourself first using the identify_user tool.'', a)
          else
            let (appts, d1) = get_appointments (db a) (the (user_contact a))
            in case find (\<lambda>r. slot_time r = old_slot \<and> status r \<noteq> ''cancelled'') appts of
                 None \<Rightarrow> (Inr (''Could not find appointment at '' @ old_slot @ ''.''), a\<lparr>db := d1\<rparr>)
               | Some target \<Rightarrow>
                   let (slot_available, d2) = is_slot_available d1 new_slot
                   in if \<not> slot_available
                      then (Inr (''I'm sorry, but the slot '' @ new_slot
                                 @ '' is already booked by another customer. Please choose a different time slot.''),
                            a\<lparr>db := d2\<rparr>)
                      else
                        let (result, d3) = update_appointment d2 (appt_id target) new_slot
                        in (Inr (''Appointment changed from '' @ old_slot @ '' to '' @ new_slot @ ''.''),
                            a\<lparr>db := d3\<rparr>))"

section \<open>agent.py: the shutdown protocol\<close>

text \<open>
  \<^verbatim>\<open>await asyncio.wait_for(aw, timeout)\<close> turns a late completion into
  \<^verbatim>\<open>asyncio.TimeoutError\<close>; a bare \<^verbatim>\<open>await aw\<close> returns when the awaitable does.
\<close>

definition wait_for :: "action \<Rightarrow> wait_outcome \<Rightarrow> unit prog" where
  "wait_for act w =
     call act (case w of Completes \<Rightarrow> None | Late \<Rightarrow> Some TimeoutError | Raises e \<Rightarrow> Some e)"

definition await :: "action \<Rightarrow> wait_outcome \<Rightarrow> unit prog" where
  "await act w =
     call act (case w of Completes \<Rightarrow> None | Late \<Rightarrow> None | Raises e \<Rightarrow> Some e)"

text \<open>The loop over \<^verbatim>\<open>track_publications.values()\<close>, the index counting the publications.\<close>

fun stop_tracks :: "nat \<Rightarrow> track_publication list \<Rightarrow> unit prog" where
  "stop_tracks i [] = ret ()"
| "stop_tracks i (track_pub # rest) =
     andthen
       (if has_track track_pub
        then try_except (call (Track_stop i) (stop_outcome track_pub)) (\<lambda>e. ret ())
        else ret ())
       (\<lambda>_. stop_tracks (Suc i) rest)"

text \<open>\<^verbatim>\<open>await self._room.disconnect()\<close>: on success the room is no longer connected.\<close>

definition room_disconnect :: "room \<Rightarrow> unit prog" where
  "room_disconnect r =
     andthen (call Room_disconnect (disconnect_outcome r))
       (\<lambda>_ a. (Inr (), a\<lparr>room := Some (r\<lparr>connected := False\<rparr>)\<rparr>))"

text \<open>Step 1 of \<^verbatim>\<open>_perform_disconnection\<close>: shut the session down and wait for it.\<close>

definition shutdown_session :: "unit prog" where
  "shutdown_session a =
     (case agent_session a of
        Some s \<Rightarrow>
          andthen (call Session_shutdown (shutdown_outcome s))
            (\<lambda>_. case closing_task s of
                    Some w \<Rightarrow> try_except (wait_for Await_closing_task w) (\<lambda>e. ret ())
                  | None \<Rightarrow> ret ()) a
      | None \<Rightarrow> (Inr (), a))"

text \<open>
  Step 2: stop the published tracks of the local participant (which a connected room has).
\<close>

definition stop_published_tracks :: "unit prog" where
  "stop_published_tracks a =
     (case room a of
        Some r \<Rightarrow> if connected r then stop_tracks 0 (track_publications r) a else (Inr (), a)
      | None \<Rightarrow> (Inr (), a))"

text \<open>Step 3: disconnect from the room.\<close>

definition disconnect_from_room :: "unit prog" where
  "disconnect_from_room a =
     (case room a of
        Some r \<Rightarrow> if connected r then room_disconnect r a else (Inr (), a)
      | None \<Rightarrow> (Inr (), a))"

definition perform_disconnection :: "unit prog" where
  "perform_disconnection =
     andthen (call Perform_disconnection None)
       (\<lambda>_. try_except
          (andthen shutdown_session
             (\<lambda>_. andthen stop_published_tracks (\<lambda>_. disconnect_from_room)))
          (\<lambda>e. ret ()))"

text \<open>
  The background task \<^verbatim>\<open>_disconnect_after_goodbye\<close> of \<^verbatim>\<open>end_conversation\<close>: first
  its wait for the goodbye audio, bounded by the timeout.
\<close>

definition wait_for_goodbye :: "unit prog" where
  "wait_for_goodbye a =
     (case (case agent_session a of None \<Rightarrow> None | Some s \<Rightarrow> audio s) of
        Some au \<Rightarrow>
          try_except
            (andthen (call Flush (flush_outcome au))
               (\<lambda>_. wait_for Wait_for_playout (wait_for_playout au)))
            (\<lambda>e. case e of TimeoutError \<Rightarrow> ret () | _ \<Rightarrow> call Sleep None) a
      | None \<Rightarrow> call Sleep None a)"

definition disconnect_after_goodbye :: "unit prog" where
  "disconnect_after_goodbye =
     try_except
       (andthen (call Sleep None)
          (\<lambda>_. andthen wait_for_goodbye (\<lambda>_. perform_disconnection)))
       (\<lambda>e. try_except perform_disconnection (\<lambda>cleanup_error. ret ()))"

subsection \<open>Strings\<close>

text \<open>\<^verbatim>\<open>str.isspace\<close> on the ASCII range, \<^verbatim>\<open>str.strip()\<close> and \<^verbatim>\<open>sep.join(xs)\<close>.\<close>

definition is_space :: "char \<Rightarrow> bool" where
  "is_space c = (c \<in> set [CHR 0x09, CHR 0x0A, CHR 0x0B, CHR 0x0C, CHR 0x0D,
                             CHR 0x1C, CHR 0x1D, CHR 0x1E, CHR 0x1F, CHR 0x20])"

definition strip :: "string \<Rightarrow> string" where
  "strip s = rev (dropWhile is_space (rev (dropWhile is_space s)))"

fun join :: "string \<Rightarrow> string list \<Rightarrow> string" where
  "join sep [] = []"
| "join sep [x] = x"
| "join sep (x # y # ys) = x @ sep @ join sep (y # ys)"

definition newline :: string where
  "newline = [CHR 0x0A]"

subsection \<open>The summary\<close>

text \<open>\<^verbatim>\<open>item.extra and item.extra.get("is_summary")\<close>.\<close>

definition is_summary :: "(string \<times> bool) list \<Rightarrow> bool" where
  "is_summary ex = (ex \<noteq> [] \<and> map_of ex ''is_summary'' = Some True)"

text \<open>The loop that collects \<^verbatim>\<open>conversation_messages\<close>.\<close>

fun conversation_messages :: "chat_item list \<Rightarrow> string list" where
  "conversation_messages [] = []"
| "conversation_messages (OtherItem # items) = conversation_messages items"
| "conversation_messages (ChatMessage r t ex # items) =
     (case t of
        None \<Rightarrow> conversation_messages items
      | Some txt \<Rightarrow>
          if txt = [] then conversation_messages items
          else if r \<noteq> ''user'' \<and> r \<noteq> ''assistant'' then conversation_messages items
          else if is_summary ex then conversation_messages items
          else (r @ '': '' @ strip txt) # conversation_messages items)"

text \<open>The loop that collects \<^verbatim>\<open>history_parts\<close> (both fallbacks run the same loop).\<close>

fun history_parts :: "chat_item list \<Rightarrow> string list" where
  "history_parts [] = []"
| "history_parts (OtherItem # items) = history_parts items"
| "history_parts (ChatMessage r t ex # items) =
     (case t of
        None \<Rightarrow> history_parts items
      | Some txt \<Rightarrow>
          if txt = [] then history_parts items
          else (r @ '': '' @ txt) # history_parts items)"

definition history_fallback :: "chat_item list \<Rightarrow> string" where
  "history_fallback items =
     (let parts = history_parts items
      in if parts \<noteq> [] then join newline parts else ''No conversation history available.'')"

definition summary_instructions :: string where
  "summary_instructions =
     ''Compress the conversation into a short, faithful summary.'' @ newline
     @ ''Focus on user goals, constraints, decisions, key facts/preferences/entities, and pending tasks.'' @ newline
     @ ''Exclude chit-chat and greetings. Be concise. Include any appointments that were booked, modified, or cancelled.''"

definition summary_ctx :: "string list \<Rightarrow> (string \<times> string) list" where
  "summary_ctx msgs =
     [(''system'', summary_instructions),
      (''user'', ''Conversation to summarize:'' @ newline @ newline @ join newline msgs)]"

text \<open>\<^verbatim>\<open>chunk.delta and chunk.delta.content\<close>: the content kept from a chunk, if any.\<close>

fun chunk_content :: "chat_chunk \<Rightarrow> string option" where
  "chunk_content (ChatChunk None) = None"
| "chunk_content (ChatChunk (Some (ChoiceDelta c))) = (if truthy c then c else None)"

text \<open>\<^verbatim>\<open>async for chunk in llm.chat(chat_ctx=summary_ctx)\<close>, the chunks appended.\<close>

definition llm_chat :: "llm \<Rightarrow> (string \<times> string) list \<Rightarrow> string list prog" where
  "llm_chat model ctx a =
     (case model ctx of
        Inl e \<Rightarrow> (Inl e, a\<lparr>trace := trace a @ [Llm_chat ctx]\<rparr>)
      | Inr stream \<Rightarrow> (Inr (List.map_filter chunk_content stream), a\<lparr>trace := trace a @ [Llm_chat ctx]\<rparr>))"

text \<open>Step 2 of \<^verbatim>\<open>end_conversation\<close>: the value of \<^verbatim>\<open>summary\<close>.\<close>

definition generate_summary :: "string prog" where
  "generate_summary a =
     (case (case agent_session a of None \<Rightarrow> None | Some s \<Rightarrow> session_llm s) of
        Some model \<Rightarrow>
          try_except
            (\<lambda>a. let msgs = conversation_messages (chat_ctx a)
                  in if msgs \<noteq> []
                     then andthen (llm_chat model (summary_ctx msgs))
                            (\<lambda>chunks.
                               let summary = strip (concat chunks)
                               in if summary \<noteq> [] then ret summary
                                  else ret (join newline (drop (length msgs - 10) msgs))) a
                     else (Inr ''No conversation history available.'', a))
            (\<lambda>e a. (Inr (history_fallback (chat_ctx a)), a)) a
      | None \<Rightarrow> (Inr (history_fallback (chat_ctx a)), a))"

text \<open>Step 1: wait for the audio that is already queued.\<close>

definition wait_current_audio :: "unit prog" where
  "wait_current_audio a =
     (case (case agent_session a of None \<Rightarrow> None | Some s \<Rightarrow> audio s) of
        Some au \<Rightarrow>
          try_except
            (andthen (call Flush (flush_outcome au))
               (\<lambda>_. await Wait_for_playout (wait_for_playout au)))
            (\<lambda>e. ret ()) a
      | None \<Rightarrow> (Inr (), a))"

text \<open>The confirmed appointments of the caller, as the summary lists them.\<close>

definition booked_appointments :: "string list prog" where
  "booked_appointments a =
     (if truthy (user_contact a)
      then try_except
             (\<lambda>a. let (appts, d1) = get_appointments (db a) (the (user_contact a))
                   in (Inr (map (\<lambda>r. slot_time r @ '' - '' @ details r @ '' ('' @ status r @ '')'')
                              (filter (\<lambda>r. status r = ''confirmed'') appts)),
                       a\<lparr>db := d1\<rparr>))
             (\<lambda>e. ret []) a
      else (Inr [], a))"

definition broadcast_summary :: "string \<Rightarrow> string list \<Rightarrow> unit prog" where
  "broadcast_summary summary booked a =
     (case room a of
        Some r \<Rightarrow>
          if connected r
          then try_except
                 (call (Publish_data (Conversation_summary summary booked (user_contact a)))
                    (publish_outcome r))
                 (\<lambda>e. ret ()) a
          else (Inr (), a)
      | None \<Rightarrow> (Inr (), a))"

definition goodbye :: string where
  "goodbye = ''Thank you for calling. Have a great day! Goodbye!''"

definition end_conversation :: "string prog" where
  "end_conversation =
     andthen (broadcast_tool_call ''end_conversation'' [])
       (\<lambda>_. andthen
          (\<lambda>a. if agent_session a \<noteq> None then call Create_task None a else (Inr (), a))
          (\<lambda>_. andthen
             (try_except
                (andthen wait_current_audio
                   (\<lambda>_. andthen generate_summary
                      (\<lambda>summary. andthen booked_appointments
                         (\<lambda>booked. broadcast_summary summary booked))))
                (\<lambda>e. ret ()))
             (\<lambda>_. ret goodbye)))"

text \<open>
  One run of the protocol: the handler, then the task it created, if it created one. The
  handler makes no call of \<open>perform_disconnection\<close> and the task is one sequential
  coroutine, so the calls each of them makes do not depend on how the two interleave.
\<close>

definition run_shutdown :: "string prog" where
  "run_shutdown a =
     (case end_conversation a of
        (res, a1) \<Rightarrow>
          if Create_task \<in> set (drop (length (trace a)) (trace a1))
          then (res, snd (disconnect_after_goodbye a1))
          else (res, a1))"

section \<open>Reading the record of calls\<close>





section \<open>The transcript, stated declaratively\<close>







section \<open>States used as examples\<close>

text \<open>\<^verbatim>\<open>BookingAgent.__init__\<close>, with the database it constructs.\<close>

definition new_agent :: "database \<Rightarrow> agent" where
  "new_agent d =
     \<lparr>db = d, user_contact = None, user_name = None, agent_session = None, room = None,
      chat_ctx = [], trace = []\<rparr>"

text \<open>A store that answers every request, holding the given rows.\<close>

definition store_of :: "appointment list \<Rightarrow> supabase" where
  "store_of rs = \<lparr>rows = rs, next_id = Suc (length rs), clock = 0, raises = (\<lambda>req. False)\<rparr>"

definition no_database :: database where
  "no_database = \<lparr>client = None\<rparr>"

text \<open>An agent after \<^verbatim>\<open>identify_user("+15551234")\<close>.\<close>

definition identified_agent :: "database \<Rightarrow> agent" where
  "identified_agent d = (new_agent d)\<lparr>user_contact := Some ''+15551234''\<rparr>"

text \<open>Three of the slots that \<^verbatim>\<open>fetch_slots\<close> lists.\<close>

definition slot_a :: string where "slot_a = ''10:30am - 11:30am, 26th January''"
definition slot_b :: string where "slot_b = ''2:15pm - 3:15pm, 26th January''"
definition slot_c :: string where "slot_c = ''9:00am - 10:00am, 27th January''"

text \<open>A confirmed booking of the caller and one of another customer.\<close>

definition checkup_row :: appointment where
  "checkup_row =
     \<lparr>appt_id = 1, contact_number = ''+15551234'', appt_user_name = ''Unknown'',
      slot_time = slot_a, details = ''checkup'', status = ''confirmed'', created_at = 0\<rparr>"

definition other_row :: appointment where
  "other_row =
     \<lparr>appt_id = 2, contact_number = ''+15559999'', appt_user_name = ''Unknown'',
      slot_time = slot_b, details = ''visit'', status = ''confirmed'', created_at = 1\<rparr>"

definition two_rows :: supabase where
  "two_rows = store_of [checkup_row, other_row]"

text \<open>The same store when the availability query for \<open>slot_b\<close> raises.\<close>

definition failing_check :: supabase where
  "failing_check =
     two_rows\<lparr>raises := (\<lambda>req. req = Select [Eq_slot_time slot_b, Eq_status ''confirmed''])\<rparr>"

text \<open>The same store when every update raises.\<close>

definition failing_updates :: supabase where
  "failing_updates =
     two_rows\<lparr>raises := (\<lambda>req. case req of Update_status v fs \<Rightarrow> True
                                   | Update_slot_time v fs \<Rightarrow> True | _ \<Rightarrow> False)\<rparr>"

text \<open>
  A connected room with two published tracks, the first of which fails to stop; a session
  whose closing task outlasts the timeout; and an agent in that call.
\<close>

definition example_room :: room where
  "example_room =
     \<lparr>connected = True,
      track_publications = [\<lparr>has_track = True, stop_outcome = Some (Error ''stop failed'')\<rparr>,
                            \<lparr>has_track = True, stop_outcome = None\<rparr>],
      publish_outcome = None, disconnect_outcome = None\<rparr>"

definition example_session :: "exn option \<Rightarrow> session" where
  "example_session outcome =
     \<lparr>audio = None, session_llm = None, shutdown_outcome = outcome, closing_task = Some Late\<rparr>"

definition agent_in_call :: "session \<Rightarrow> agent" where
  "agent_in_call s = (identified_agent no_database)\<lparr>agent_session := Some s, room := Some example_room\<rparr>"

text \<open>
  A conversation with a system turn, an earlier summary and an item that is no message; a
  model that streams only blanks and one whose request fails; an agent with this
  conversation and such a model.
\<close>

definition example_chat :: "chat_item list" where
  "example_chat =
     [ChatMessage ''system'' (Some ''You are a helpful voice assistant.'') [],
      ChatMessage ''user'' (Some '' Book 10:30 please '') [],
      OtherItem,
      ChatMessage ''assistant'' (Some ''Earlier summary'') [(''is_summary'', True)],
      ChatMessage ''assistant'' (Some ''Booked.'') []]"


definition failing_llm :: llm where
  "failing_llm ctx = Inl (Error ''overloaded'')"

definition summarising_agent :: "llm \<Rightarrow> agent" where
  "summarising_agent model =
     (new_agent no_database)
       \<lparr>agent_session := Some \<lparr>audio = None, session_llm = Some model, shutdown_outcome = None,
                                closing_task = None\<rparr>,
        chat_ctx := example_chat\<rparr>"

section \<open>Basic facts\<close>

lemma broadcast_tool_call_result: "fst (broadcast_tool_call t args a) = Inr ()"
  by (simp add: broadcast_tool_call_def try_except_def call_def ret_def
      split: option.split prod.split sum.split)

lemma broadcast_tool_call_db: "db (snd (broadcast_tool_call t args a)) = db a"
  by (simp add: broadcast_tool_call_def try_except_def call_def ret_def
      split: option.split prod.split sum.split)

lemma broadcast_tool_call_fields:
  "user_contact (snd (broadcast_tool_call t args a)) = user_contact a"
  "user_name (snd (broadcast_tool_call t args a)) = user_name a"
  "agent_session (snd (broadcast_tool_call t args a)) = agent_session a"
  "room (snd (broadcast_tool_call t args a)) = room a"
  "chat_ctx (snd (broadcast_tool_call t args a)) = chat_ctx a"
  by (simp_all add: broadcast_tool_call_def try_except_def call_def ret_def
      split: option.split prod.split sum.split)

lemma andthen_broadcast:
  "andthen (broadcast_tool_call t args) f a = f () (snd (broadcast_tool_call t args a))"
  using broadcast_tool_call_result [of t args a]
  by (cases "broadcast_tool_call t args a") (simp add: andthen_def)

section \<open>Tools before identification\<close>

text \<open>
  C7. While \<^verbatim>\<open>user_contact\<close> is still \<^verbatim>\<open>None\<close>, each of \<^verbatim>\<open>book_appointment\<close>,
  \<^verbatim>\<open>cancel_appointment\<close> and \<^verbatim>\<open>modify_appointment\<close> returns its "not identified"
  sentence as an ordinary result (no exception), and leaves the database as it was.
\<close>

theorem unidentified_tools_refuse:
  assumes "user_contact a = None"
  shows "fst (book_appointment slot dets a) =
           Inr ''I need your contact number before booking. Please provide it using the identify_user tool.''
       \<and> db (snd (book_appointment slot dets a)) = db a
       \<and> fst (cancel_appointment slot a) = Inr ''Please provide your phone number.''
       \<and> db (snd (cancel_appointment slot a)) = db a
       \<and> fst (modify_appointment slot new_slot a) =
           Inr ''Please identify yourself first using the identify_user tool.''
       \<and> db (snd (modify_appointment slot new_slot a)) = db a"
  using assms
  by (simp add: book_appointment_def cancel_appointment_def modify_appointment_def
      andthen_broadcast broadcast_tool_call_fields broadcast_tool_call_db truthy_def)

theorem unidentified_tools_refuse_witness:
  "user_contact (new_agent \<lparr>client = Some (store_of [])\<rparr>) = None
   \<and> fst (book_appointment ''9:00am - 10:00am, 27th January'' ''checkup''
          (new_agent \<lparr>client = Some (store_of [])\<rparr>)) =
       Inr ''I need your contact number before booking. Please provide it using the identify_user tool.''
   \<and> db (snd (book_appointment ''9:00am - 10:00am, 27th January'' ''checkup''
          (new_agent \<lparr>client = Some (store_of [])\<rparr>))) = \<lparr>client = Some (store_of [])\<rparr>
   \<and> fst (cancel_appointment ''9:00am - 10:00am, 27th January''
          (new_agent \<lparr>client = Some (store_of [])\<rparr>)) = Inr ''Please provide your phone number.''
   \<and> fst (modify_appointment ''9:00am - 10:00am, 27th January'' ''2:00pm - 3:00pm, 30th January''
          (new_agent \<lparr>client = Some (store_of [])\<rparr>)) =
       Inr ''Please identify yourself first using the identify_user tool.''"
  using unidentified_tools_refuse [of "new_agent \<lparr>client = Some (store_of [])\<rparr>"
      "''9:00am - 10:00am, 27th January''" "''checkup''" "''2:00pm - 3:00pm, 30th January''"]
  by (simp add: new_agent_def)

text \<open>
  C10. \<^verbatim>\<open>identify_user("")\<close> answers with the confirmation sentence and stores the empty
  string; the three booking tools then still answer "not identified" and leave the database
  as it was, since they test the truth value of the stored contact.
\<close>

theorem identify_user_empty_string:
  "fst (identify_user [] a) =
     Inr ''Thank you! I have your contact number . How can I help you today?''
   \<and> user_contact (snd (identify_user [] a)) = Some []
   \<and> fst (book_appointment slot dets (snd (identify_user [] a))) =
       Inr ''I need your contact number before booking. Please provide it using the identify_user tool.''
   \<and> db (snd (book_appointment slot dets (snd (identify_user [] a)))) = db a
   \<and> fst (cancel_appointment slot (snd (identify_user [] a))) =
       Inr ''Please provide your phone number.''
   \<and> db (snd (cancel_appointment slot (snd (identify_user [] a)))) = db a
   \<and> fst (modify_appointment slot new_slot (snd (identify_user [] a))) =
       Inr ''Please identify yourself first using the identify_user tool.''
   \<and> db (snd (modify_appointment slot new_slot (snd (identify_user [] a)))) = db a"
  by (simp add: identify_user_def book_appointment_def cancel_appointment_def
      modify_appointment_def andthen_broadcast broadcast_tool_call_fields
      broadcast_tool_call_db truthy_def)

section \<open>The database functions\<close>

lemma selected_simps:
  "selected [Eq_contact_number c] = (\<lambda>r. contact_number r = c)"
  "selected [Eq_id i] = (\<lambda>r. appt_id r = i)"
  "selected [Eq_slot_time s, Eq_status st] = (\<lambda>r. slot_time r = s \<and> status r = st)"
  by (simp_all add: fun_eq_iff selected_def)

lemma get_appointments_eq:
  "get_appointments d contact =
     (case client d of
        None \<Rightarrow> []
      | Some c \<Rightarrow> if raises c (Select [Eq_contact_number contact]) then []
                  else filter (\<lambda>r. contact_number r = contact) (rows c), d)"
  by (simp add: get_appointments_def execute_def selected_simps split: option.split)

lemma is_slot_available_eq:
  "is_slot_available d slot =
     (case client d of
        None \<Rightarrow> True
      | Some c \<Rightarrow> raises c (Select [Eq_slot_time slot, Eq_status ''confirmed''])
                  \<or> \<not> list_ex (\<lambda>r. slot_time r = slot \<and> status r = ''confirmed'') (rows c), d)"
  by (auto simp: is_slot_available_def execute_def selected_simps filter_empty_conv list_ex_iff
      split: option.split)


lemma get_appointments_snd: "snd (get_appointments d contact) = d"
  by (simp add: get_appointments_eq)

lemma is_slot_available_snd: "snd (is_slot_available d slot) = d"
  by (simp add: is_slot_available_eq)

section \<open>Booking\<close>










section \<open>Modifying and cancelling\<close>

lemma update_appointment_eq:
  "update_appointment d i new_slot =
     (case client d of
        None \<Rightarrow> (None, d)
      | Some c \<Rightarrow>
          if raises c (Update_slot_time new_slot [Eq_id i]) then (None, d)
          else (Some (map (\<lambda>r. r\<lparr>slot_time := new_slot\<rparr>) (filter (\<lambda>r. appt_id r = i) (rows c))),
                d\<lparr>client := Some (c\<lparr>rows := map (\<lambda>r. if appt_id r = i then r\<lparr>slot_time := new_slot\<rparr> else r)
                                              (rows c)\<rparr>)\<rparr>))"
  by (simp add: update_appointment_def execute_def selected_simps split: option.split)

lemma cancel_appointment_db_eq:
  "cancel_appointment_db d i =
     (case client d of
        None \<Rightarrow> (None, d)
      | Some c \<Rightarrow>
          if raises c (Update_status ''cancelled'' [Eq_id i]) then (None, d)
          else (Some (map (\<lambda>r. r\<lparr>status := ''cancelled''\<rparr>) (filter (\<lambda>r. appt_id r = i) (rows c))),
                d\<lparr>client := Some (c\<lparr>rows := map (\<lambda>r. if appt_id r = i then r\<lparr>status := ''cancelled''\<rparr> else r)
                                              (rows c)\<rparr>)\<rparr>))"
  by (simp add: cancel_appointment_db_def execute_def selected_simps split: option.split)

lemma modify_not_found:
  assumes "user_contact a = Some contact" "contact \<noteq> []"
    and "find (\<lambda>r. slot_time r = old_slot \<and> status r \<noteq> ''cancelled'')
           (fst (get_appointments (db a) contact)) = None"
  shows "modify_appointment old_slot new_slot a =
     (Inr (''Could not find appointment at '' @ old_slot @ ''.''),
      snd (broadcast_tool_call ''modify_appointment''
             [(''old_slot'', old_slot), (''new_slot'', new_slot)] a))"
proof -
  obtain ex d1 where g: "get_appointments (db a) contact = (ex, d1)"
    by (cases "get_appointments (db a) contact")
  have d1: "d1 = db a" using get_appointments_snd [of "db a" contact] g by simp
  have t: "truthy (user_contact a)" using assms(1,2) by (simp add: truthy_def)
  show ?thesis
    using assms t g d1 broadcast_tool_call_db [of "''modify_appointment''"
        "[(''old_slot'', old_slot), (''new_slot'', new_slot)]" a]
    unfolding modify_appointment_def andthen_broadcast
    by (simp add: broadcast_tool_call_fields del: append.simps)
qed

lemma modify_conflict:
  assumes "user_contact a = Some contact" "contact \<noteq> []"
    and "find (\<lambda>r. slot_time r = old_slot \<and> status r \<noteq> ''cancelled'')
           (fst (get_appointments (db a) contact)) = Some target"
    and "\<not> fst (is_slot_available (db a) new_slot)"
  shows "modify_appointment old_slot new_slot a =
     (Inr (''I'm sorry, but the slot '' @ new_slot
           @ '' is already booked by another customer. Please choose a different time slot.''),
      snd (broadcast_tool_call ''modify_appointment''
             [(''old_slot'', old_slot), (''new_slot'', new_slot)] a))"
proof -
  obtain ex d1 where g: "get_appointments (db a) contact = (ex, d1)"
    by (cases "get_appointments (db a) contact")
  have d1: "d1 = db a" using get_appointments_snd [of "db a" contact] g by simp
  obtain av d2 where s: "is_slot_available (db a) new_slot = (av, d2)"
    by (cases "is_slot_available (db a) new_slot")
  have d2: "d2 = db a" using is_slot_available_snd [of "db a" new_slot] s by simp
  have t: "truthy (user_contact a)" using assms(1,2) by (simp add: truthy_def)
  show ?thesis
    using assms t g d1 s d2 broadcast_tool_call_db [of "''modify_appointment''"
        "[(''old_slot'', old_slot), (''new_slot'', new_slot)]" a]
    unfolding modify_appointment_def andthen_broadcast
    by (simp add: broadcast_tool_call_fields del: append.simps)
qed

lemma modify_update:
  assumes "user_contact a = Some contact" "contact \<noteq> []"
    and "find (\<lambda>r. slot_time r = old_slot \<and> status r \<noteq> ''cancelled'')
           (fst (get_appointments (db a) contact)) = Some target"
    and "fst (is_slot_available (db a) new_slot)"
  shows "modify_appointment old_slot new_slot a =
     (Inr (''Appointment changed from '' @ old_slot @ '' to '' @ new_slot @ ''.''),
      (snd (broadcast_tool_call ''modify_appointment''
             [(''old_slot'', old_slot), (''new_slot'', new_slot)] a))
        \<lparr>db := snd (update_appointment (db a) (appt_id target) new_slot)\<rparr>)"
proof -
  obtain ex d1 where g: "get_appointments (db a) contact = (ex, d1)"
    by (cases "get_appointments (db a) contact")
  have d1: "d1 = db a" using get_appointments_snd [of "db a" contact] g by simp
  obtain av d2 where s: "is_slot_available (db a) new_slot = (av, d2)"
    by (cases "is_slot_available (db a) new_slot")
  have d2: "d2 = db a" using is_slot_available_snd [of "db a" new_slot] s by simp
  obtain res d3 where u: "update_appointment (db a) (appt_id target) new_slot = (res, d3)"
    by (cases "update_appointment (db a) (appt_id target) new_slot")
  have t: "truthy (user_contact a)" using assms(1,2) by (simp add: truthy_def)
  show ?thesis
    using assms t g d1 s d2 u broadcast_tool_call_db [of "''modify_appointment''"
        "[(''old_slot'', old_slot), (''new_slot'', new_slot)]" a]
    unfolding modify_appointment_def andthen_broadcast
    by (simp add: broadcast_tool_call_fields del: append.simps)
qed

lemma cancel_not_found:
  assumes "user_contact a = Some contact" "contact \<noteq> []"
    and "find (\<lambda>r. slot_time r = slot \<and> status r \<noteq> ''cancelled'')
           (fst (get_appointments (db a) contact)) = None"
  shows "cancel_appointment slot a =
     (Inr (''I couldn't find an active appointment at '' @ slot @ ''.''),
      snd (broadcast_tool_call ''cancel_appointment'' [(''slot'', slot)] a))"
proof -
  obtain ex d1 where g: "get_appointments (db a) contact = (ex, d1)"
    by (cases "get_appointments (db a) contact")
  have d1: "d1 = db a" using get_appointments_snd [of "db a" contact] g by simp
  have t: "truthy (user_contact a)" using assms(1,2) by (simp add: truthy_def)
  show ?thesis
    using assms t g d1 broadcast_tool_call_db [of "''cancel_appointment''" "[(''slot'', slot)]" a]
    unfolding cancel_appointment_def andthen_broadcast
    by (simp add: broadcast_tool_call_fields del: append.simps)
qed

lemma cancel_found:
  assumes "user_contact a = Some contact" "contact \<noteq> []"
    and "find (\<lambda>r. slot_time r = slot \<and> status r \<noteq> ''cancelled'')
           (fst (get_appointments (db a) contact)) = Some target"
  shows "cancel_appointment slot a =
     (Inr (''Appointment at '' @ slot @ '' has been cancelled.''),
      (snd (broadcast_tool_call ''cancel_appointment'' [(''slot'', slot)] a))
        \<lparr>db := snd (cancel_appointment_db (db a) (appt_id target))\<rparr>)"
proof -
  obtain ex d1 where g: "get_appointments (db a) contact = (ex, d1)"
    by (cases "get_appointments (db a) contact")
  have d1: "d1 = db a" using get_appointments_snd [of "db a" contact] g by simp
  obtain res d2 where u: "cancel_appointment_db (db a) (appt_id target) = (res, d2)"
    by (cases "cancel_appointment_db (db a) (appt_id target)")
  have t: "truthy (user_contact a)" using assms(1,2) by (simp add: truthy_def)
  show ?thesis
    using assms t g d1 u broadcast_tool_call_db [of "''cancel_appointment''" "[(''slot'', slot)]" a]
    unfolding cancel_appointment_def andthen_broadcast
    by (simp add: broadcast_tool_call_fields del: append.simps)
qed

lemma find_filter: "find P (filter Q xs) = find (\<lambda>x. Q x \<and> P x) xs"
  by (induction xs) auto

lemma find_SomeD: "find P xs = Some x \<Longrightarrow> x \<in> set xs \<and> P x"
  by (induction xs) (auto split: if_splits)

lemma update_only_target:
  assumes "distinct (map appt_id rs)" and "target \<in> set rs"
  shows "map (\<lambda>r. if appt_id r = appt_id target then f r else r) rs =
         map (\<lambda>r. if r = target then f r else r) rs"
proof (rule map_cong [OF refl])
  fix r assume "r \<in> set rs"
  with assms have "appt_id r = appt_id target \<longleftrightarrow> r = target"
    by (auto dest: inj_onD [OF iffD1 [OF distinct_map, THEN conjunct2]])
  then show "(if appt_id r = appt_id target then f r else r) = (if r = target then f r else r)"
    by simp
qed

text \<open>
  C8, as amended. For an identified caller whose first non-cancelled record at \<open>old_slot\<close>
  is \<open>target\<close>, on a store with unique record ids that answers the three requests of the
  tool: if no confirmed record exists for \<open>new_slot\<close>, \<^verbatim>\<open>modify_appointment\<close>
  reports the change and the table afterwards is the old table with \<open>slot_time\<close> of
  \<open>target\<close> set to \<open>new_slot\<close> (its id, creation time, status and every other field, and
  every other row, as before); if a confirmed record exists for \<open>new_slot\<close>, it reports
  the conflict and the database is unchanged.
\<close>

theorem modify_appointment_frame:
  assumes "user_contact a = Some contact" and "contact \<noteq> []"
    and "client (db a) = Some c"
    and "\<not> raises c (Select [Eq_contact_number contact])"
    and "\<not> raises c (Select [Eq_slot_time new_slot, Eq_status ''confirmed''])"
    and "\<not> raises c (Update_slot_time new_slot [Eq_id (appt_id target)])"
    and "distinct (map appt_id (rows c))"
    and "find (\<lambda>r. contact_number r = contact \<and> slot_time r = old_slot \<and> status r \<noteq> ''cancelled'')
           (rows c) = Some target"
  shows
   "(\<not> list_ex (\<lambda>r. slot_time r = new_slot \<and> status r = ''confirmed'') (rows c) \<longrightarrow>
       fst (modify_appointment old_slot new_slot a) =
         Inr (''Appointment changed from '' @ old_slot @ '' to '' @ new_slot @ ''.'')
       \<and> db (snd (modify_appointment old_slot new_slot a)) =
           (db a)\<lparr>client := Some (c\<lparr>rows :=
              map (\<lambda>r. if r = target then r\<lparr>slot_time := new_slot\<rparr> else r) (rows c)\<rparr>)\<rparr>)
  \<and> (list_ex (\<lambda>r. slot_time r = new_slot \<and> status r = ''confirmed'') (rows c) \<longrightarrow>
       fst (modify_appointment old_slot new_slot a) =
         Inr (''I'm sorry, but the slot '' @ new_slot
              @ '' is already booked by another customer. Please choose a different time slot.'')
       \<and> db (snd (modify_appointment old_slot new_slot a)) = db a)"
proof -
  have f: "find (\<lambda>r. slot_time r = old_slot \<and> status r \<noteq> ''cancelled'')
             (fst (get_appointments (db a) contact)) = Some target"
    using assms(3,4,8) by (simp add: get_appointments_eq find_filter)
  have av: "fst (is_slot_available (db a) new_slot) =
              (\<not> list_ex (\<lambda>r. slot_time r = new_slot \<and> status r = ''confirmed'') (rows c))"
    using assms(3,5) by (simp add: is_slot_available_eq)
  have tg: "target \<in> set (rows c)" using find_SomeD [OF assms(8)] by simp
  have up: "snd (update_appointment (db a) (appt_id target) new_slot) =
      (db a)\<lparr>client := Some (c\<lparr>rows :=
              map (\<lambda>r. if r = target then r\<lparr>slot_time := new_slot\<rparr> else r) (rows c)\<rparr>)\<rparr>"
    using assms(3,6) update_only_target [OF assms(7) tg, of "\<lambda>r. r\<lparr>slot_time := new_slot\<rparr>"]
    by (simp add: update_appointment_eq)
  show ?thesis
  proof (intro conjI impI)
    assume "\<not> list_ex (\<lambda>r. slot_time r = new_slot \<and> status r = ''confirmed'') (rows c)"
    with av have "fst (is_slot_available (db a) new_slot)" by simp
    from modify_update [OF assms(1,2) f this] up
    show "fst (modify_appointment old_slot new_slot a) =
         Inr (''Appointment changed from '' @ old_slot @ '' to '' @ new_slot @ ''.'')"
      and "db (snd (modify_appointment old_slot new_slot a)) =
           (db a)\<lparr>client := Some (c\<lparr>rows :=
              map (\<lambda>r. if r = target then r\<lparr>slot_time := new_slot\<rparr> else r) (rows c)\<rparr>)\<rparr>"
      by (simp_all del: append.simps)
  next
    assume "list_ex (\<lambda>r. slot_time r = new_slot \<and> status r = ''confirmed'') (rows c)"
    with av have "\<not> fst (is_slot_available (db a) new_slot)" by simp
    from modify_conflict [OF assms(1,2) f this]
    show "fst (modify_appointment old_slot new_slot a) =
         Inr (''I'm sorry, but the slot '' @ new_slot
              @ '' is already booked by another customer. Please choose a different time slot.'')"
      and "db (snd (modify_appointment old_slot new_slot a)) = db a"
      by (simp_all add: broadcast_tool_call_db del: append.simps)
  qed
qed

lemma slots_distinct:
  "slot_a \<noteq> slot_b" "slot_a \<noteq> slot_c" "slot_b \<noteq> slot_c"
  "slot_b \<noteq> slot_a" "slot_c \<noteq> slot_a" "slot_c \<noteq> slot_b"
  by (simp_all add: slot_a_def slot_b_def slot_c_def)

lemma example_rows:
  "rows two_rows = [checkup_row, other_row]" "raises two_rows = (\<lambda>req. False)"
  "appt_id checkup_row = 1" "appt_id other_row = 2"
  "contact_number checkup_row = ''+15551234''" "contact_number other_row = ''+15559999''"
  "slot_time checkup_row = slot_a" "slot_time other_row = slot_b"
  "status checkup_row = ''confirmed''" "status other_row = ''confirmed''"
  "checkup_row \<noteq> other_row" "other_row \<noteq> checkup_row"
  by (auto simp: two_rows_def store_of_def checkup_row_def other_row_def)

lemma example_agent:
  "user_contact (identified_agent d) = Some ''+15551234''"
  "user_name (identified_agent d) = None"
  "db (identified_agent d) = d"
  by (simp_all add: identified_agent_def new_agent_def)

theorem modify_appointment_frame_witness:
  "user_contact (identified_agent \<lparr>client = Some two_rows\<rparr>) = Some ''+15551234''
   \<and> distinct (map appt_id (rows two_rows))
   \<and> find (\<lambda>r. contact_number r = ''+15551234'' \<and> slot_time r = slot_a \<and> status r \<noteq> ''cancelled'')
        (rows two_rows) = Some checkup_row
   \<and> \<not> list_ex (\<lambda>r. slot_time r = slot_c \<and> status r = ''confirmed'') (rows two_rows)
   \<and> fst (modify_appointment slot_a slot_c (identified_agent \<lparr>client = Some two_rows\<rparr>)) =
       Inr (''Appointment changed from '' @ slot_a @ '' to '' @ slot_c @ ''.'')
   \<and> db_rows (db (snd (modify_appointment slot_a slot_c
         (identified_agent \<lparr>client = Some two_rows\<rparr>)))) =
       [checkup_row\<lparr>slot_time := slot_c\<rparr>, other_row]"
  using modify_appointment_frame [of "identified_agent \<lparr>client = Some two_rows\<rparr>"
      "''+15551234''" two_rows slot_c checkup_row slot_a]
  by (simp add: example_agent example_rows slots_distinct db_rows_def del: append.simps)

lemma failing_check_fields:
  "rows failing_check = [checkup_row, other_row]"
  "raises failing_check req = (req = Select [Eq_slot_time slot_b, Eq_status ''confirmed''])"
  by (simp_all add: failing_check_def example_rows)

text \<open>
  C8 as stated fails when the availability query raises: \<^verbatim>\<open>is_slot_available\<close> then
  answers "available" (as its comment says), so although \<open>slot_b\<close> holds a confirmed
  record of another customer, no conflict is reported and the caller's record is moved.
\<close>

theorem modify_appointment_counterexample:
  "user_contact (identified_agent \<lparr>client = Some failing_check\<rparr>) = Some ''+15551234''
   \<and> find (\<lambda>r. contact_number r = ''+15551234'' \<and> slot_time r = slot_a \<and> status r \<noteq> ''cancelled'')
        (rows failing_check) = Some checkup_row
   \<and> list_ex (\<lambda>r. slot_time r = slot_b \<and> status r = ''confirmed'') (rows failing_check)
   \<and> fst (modify_appointment slot_a slot_b (identified_agent \<lparr>client = Some failing_check\<rparr>)) =
       Inr (''Appointment changed from '' @ slot_a @ '' to '' @ slot_b @ ''.'')
   \<and> db_rows (db (snd (modify_appointment slot_a slot_b
         (identified_agent \<lparr>client = Some failing_check\<rparr>)))) =
       [checkup_row\<lparr>slot_time := slot_b\<rparr>, other_row]"
proof -
  let ?a = "identified_agent \<lparr>client = Some failing_check\<rparr>"
  have f: "find (\<lambda>r. slot_time r = slot_a \<and> status r \<noteq> ''cancelled'')
             (fst (get_appointments (db ?a) ''+15551234'')) = Some checkup_row"
    by (simp add: get_appointments_eq example_agent failing_check_fields example_rows)
  have av: "fst (is_slot_available (db ?a) slot_b)"
    by (simp add: is_slot_available_eq example_agent failing_check_fields)
  have "''+15551234'' \<noteq> []" by simp
  from modify_update [OF example_agent(1) this f av] show ?thesis
    by (simp add: example_agent failing_check_fields example_rows slots_distinct
        update_appointment_eq db_rows_def del: append.simps)
qed

lemma confirmed_not_cancelled: "''confirmed'' \<noteq> ''cancelled''"
  by simp

text \<open>
  C9, as amended. For an identified caller who holds a confirmed record at \<open>new_slot\<close>,
  and a non-cancelled record at \<open>old_slot\<close> (which is the case when the two slots are the
  same), on a store that answers the two reads: \<^verbatim>\<open>modify_appointment\<close> answers with the
  "already booked by another customer" sentence and leaves the database unchanged.
\<close>

theorem modify_to_own_slot_rejected:
  assumes "user_contact a = Some contact" and "contact \<noteq> []"
    and "client (db a) = Some c"
    and "\<not> raises c (Select [Eq_contact_number contact])"
    and "\<not> raises c (Select [Eq_slot_time new_slot, Eq_status ''confirmed''])"
    and own: "list_ex (\<lambda>r. contact_number r = contact \<and> slot_time r = new_slot
                          \<and> status r = ''confirmed'') (rows c)"
    and old: "old_slot = new_slot
              \<or> list_ex (\<lambda>r. contact_number r = contact \<and> slot_time r = old_slot
                            \<and> status r \<noteq> ''cancelled'') (rows c)"
  shows "fst (modify_appointment old_slot new_slot a) =
           Inr (''I'm sorry, but the slot '' @ new_slot
                @ '' is already booked by another customer. Please choose a different time slot.'')
       \<and> db (snd (modify_appointment old_slot new_slot a)) = db a"
proof -
  have "list_ex (\<lambda>r. contact_number r = contact \<and> slot_time r = old_slot
                            \<and> status r \<noteq> ''cancelled'') (rows c)"
    using old own confirmed_not_cancelled by (auto simp: list_ex_iff simp del: list.inject)
  then obtain target where
    f: "find (\<lambda>r. slot_time r = old_slot \<and> status r \<noteq> ''cancelled'')
             (fst (get_appointments (db a) contact)) = Some target"
    using assms(3,4)
    by (cases "find (\<lambda>r. contact_number r = contact \<and> slot_time r = old_slot
                            \<and> status r \<noteq> ''cancelled'') (rows c)")
       (auto simp: get_appointments_eq find_filter find_None_iff list_ex_iff)
  have "\<not> fst (is_slot_available (db a) new_slot)"
    using assms(3,5) own by (auto simp: is_slot_available_eq list_ex_iff)
  from modify_conflict [OF assms(1,2) f this] show ?thesis
    by (simp add: broadcast_tool_call_db del: append.simps)
qed

theorem modify_to_own_slot_rejected_witness:
  "user_contact (identified_agent \<lparr>client = Some two_rows\<rparr>) = Some ''+15551234''
   \<and> list_ex (\<lambda>r. contact_number r = ''+15551234'' \<and> slot_time r = slot_a
                 \<and> status r = ''confirmed'') (rows two_rows)
   \<and> fst (modify_appointment slot_a slot_a (identified_agent \<lparr>client = Some two_rows\<rparr>)) =
       Inr (''I'm sorry, but the slot '' @ slot_a
            @ '' is already booked by another customer. Please choose a different time slot.'')
   \<and> db (snd (modify_appointment slot_a slot_a (identified_agent \<lparr>client = Some two_rows\<rparr>))) =
       \<lparr>client = Some two_rows\<rparr>"
  using modify_to_own_slot_rejected [of "identified_agent \<lparr>client = Some two_rows\<rparr>"
      "''+15551234''" two_rows slot_a slot_a]
  by (simp add: example_agent example_rows del: append.simps)

text \<open>
  C9 as stated fails when the caller has no active record at \<open>old_slot\<close>: the lookup of
  the old slot comes first, and its answer is "Could not find appointment".
\<close>

theorem modify_to_own_slot_counterexample:
  "user_contact (identified_agent \<lparr>client = Some two_rows\<rparr>) = Some ''+15551234''
   \<and> list_ex (\<lambda>r. contact_number r = ''+15551234'' \<and> slot_time r = slot_a
                 \<and> status r = ''confirmed'') (rows two_rows)
   \<and> fst (modify_appointment slot_c slot_a (identified_agent \<lparr>client = Some two_rows\<rparr>)) =
       Inr (''Could not find appointment at '' @ slot_c @ ''.'')
   \<and> fst (modify_appointment slot_c slot_a (identified_agent \<lparr>client = Some two_rows\<rparr>)) \<noteq>
       Inr (''I'm sorry, but the slot '' @ slot_a
            @ '' is already booked by another customer. Please choose a different time slot.'')"
proof -
  let ?a = "identified_agent \<lparr>client = Some two_rows\<rparr>"
  have f: "find (\<lambda>r. slot_time r = slot_c \<and> status r \<noteq> ''cancelled'')
             (fst (get_appointments (db ?a) ''+15551234'')) = None"
    by (simp add: get_appointments_eq example_agent example_rows slots_distinct)
  have "''+15551234'' \<noteq> []" by simp
  from modify_not_found [OF example_agent(1) this f, of slot_a] show ?thesis
    by (simp add: example_agent example_rows)
qed

lemma failing_updates_fields:
  "rows failing_updates = [checkup_row, other_row]"
  "\<not> raises failing_updates (Select fs)"
  "raises failing_updates (Update_status v fs)"
  "raises failing_updates (Update_slot_time v fs)"
  by (simp_all add: failing_updates_def example_rows)

text \<open>
  C2: the code at a failing input. The caller holds a confirmed record at \<open>slot_a\<close> and
  every update raises. \<^verbatim>\<open>cancel_appointment\<close> and \<^verbatim>\<open>modify_appointment\<close> drop the
  result of the database call: both answer with their success sentence, and the database
  is as before.
\<close>

theorem write_failure_reported_as_success:
  "user_contact (identified_agent \<lparr>client = Some failing_updates\<rparr>) = Some ''+15551234''
   \<and> fst (cancel_appointment slot_a (identified_agent \<lparr>client = Some failing_updates\<rparr>)) =
       Inr (''Appointment at '' @ slot_a @ '' has been cancelled.'')
   \<and> db (snd (cancel_appointment slot_a (identified_agent \<lparr>client = Some failing_updates\<rparr>))) =
       \<lparr>client = Some failing_updates\<rparr>
   \<and> fst (modify_appointment slot_a slot_c (identified_agent \<lparr>client = Some failing_updates\<rparr>)) =
       Inr (''Appointment changed from '' @ slot_a @ '' to '' @ slot_c @ ''.'')
   \<and> db (snd (modify_appointment slot_a slot_c (identified_agent \<lparr>client = Some failing_updates\<rparr>))) =
       \<lparr>client = Some failing_updates\<rparr>"
proof -
  let ?a = "identified_agent \<lparr>client = Some failing_updates\<rparr>"
  have f: "find (\<lambda>r. slot_time r = slot_a \<and> status r \<noteq> ''cancelled'')
             (fst (get_appointments (db ?a) ''+15551234'')) = Some checkup_row"
    by (simp add: get_appointments_eq example_agent failing_updates_fields example_rows)
  have av: "fst (is_slot_available (db ?a) slot_c)"
    by (simp add: is_slot_available_eq example_agent failing_updates_fields example_rows
        slots_distinct)
  have n: "''+15551234'' \<noteq> []" by simp
  from cancel_found [OF example_agent(1) n f] modify_update [OF example_agent(1) n f av]
  show ?thesis
    by (simp add: example_agent failing_updates_fields cancel_appointment_db_eq
        update_appointment_eq del: append.simps)
qed

section \<open>The shutdown protocol\<close>

lemma try_except_ret: "fst (try_except m (\<lambda>e. ret ()) a) = Inr ()"
  by (cases "m a") (auto simp: try_except_def ret_def split: sum.split)

lemma andthen_Inr:
  assumes "fst (m a) = Inr x"
  shows "andthen m f a = f x (snd (m a))"
  using assms by (cases "m a") (simp add: andthen_def)

lemma call_None: "call act None a = (Inr (), a\<lparr>trace := trace a @ [act]\<rparr>)"
  by (simp add: call_def)

lemma perform_disconnection_returns: "fst (perform_disconnection a) = Inr ()"
  unfolding perform_disconnection_def
  by (simp add: andthen_Inr [where x = "()"] call_None try_except_ret)


lemma disconnect_after_goodbye_returns: "fst (disconnect_after_goodbye a) = Inr ()"
proof -
  have "fst (try_except m (\<lambda>e. try_except perform_disconnection (\<lambda>cleanup_error. ret ())) a) = Inr ()"
    for m :: "unit prog"
    by (cases "m a") (auto simp: try_except_def ret_def perform_disconnection_returns
        split: sum.split prod.split)
  then show ?thesis unfolding disconnect_after_goodbye_def .
qed

lemma end_conversation_returns: "fst (end_conversation a) = Inr goodbye"
proof -
  have c: "fst ((\<lambda>a. if agent_session a \<noteq> None then call Create_task None a else (Inr (), a)) b) = Inr ()"
    for b by (simp add: call_None)
  show ?thesis
    unfolding end_conversation_def
    by (simp only: andthen_broadcast andthen_Inr [OF c] andthen_Inr [OF try_except_ret])
       (simp add: ret_def)
qed


































text \<open>
  C3. Whatever the collaborators do (each call completes or raises any exception, a wait
  under a timeout may also time out), \<^verbatim>\<open>end_conversation\<close> returns the goodbye text,
  alone and when the background task has run as well; and the background task itself ends
  without an exception.
\<close>

theorem end_conversation_returns_goodbye:
  "fst (end_conversation a) = Inr ''Thank you for calling. Have a great day! Goodbye!''
   \<and> fst (run_shutdown a) = Inr ''Thank you for calling. Have a great day! Goodbye!''
   \<and> fst (disconnect_after_goodbye a) = Inr ()"
proof -
  have "fst (run_shutdown a) = fst (end_conversation a)"
    by (cases "end_conversation a") (simp add: run_shutdown_def)
  then show ?thesis
    by (simp add: end_conversation_returns disconnect_after_goodbye_returns goodbye_def)
qed

text \<open>
  A run on the example call: the handler publishes its tool call and the summary, the task
  sleeps, enters the disconnect action once, and all three steps are attempted although the
  wait for the closing task times out and the first track fails to stop.
\<close>

lemma run_shutdown_example:
  "fst (run_shutdown (agent_in_call (example_session None))) = Inr goodbye
   \<and> trace (snd (run_shutdown (agent_in_call (example_session None)))) =
       [Publish_data (Tool_call ''end_conversation'' []), Create_task,
        Publish_data (Conversation_summary ''No conversation history available.'' []
                        (Some ''+15551234'')),
        Sleep, Sleep, Perform_disconnection, Session_shutdown, Await_closing_task,
        Track_stop 0, Track_stop 1, Room_disconnect]"
  by code_simp

text \<open>Without a session no task is created and nothing is disconnected.\<close>

lemma run_shutdown_without_session:
  "fst (run_shutdown (new_agent no_database)) = Inr goodbye
   \<and> trace (snd (run_shutdown (new_agent no_database))) = []"
  by code_simp

section \<open>The summary of the conversation\<close>










text \<open>
  The value of step 2 is what \<^verbatim>\<open>end_conversation\<close> publishes: here the request fails
  and the event carries the raw transcript.
\<close>

lemma end_conversation_publishes_summary:
  "trace (snd (end_conversation ((summarising_agent failing_llm)\<lparr>room := Some example_room\<rparr>))) =
     [Publish_data (Tool_call ''end_conversation'' []), Create_task,
      Llm_chat (summary_ctx [''user: Book 10:30 please'', ''assistant: Booked.'']),
      Publish_data
        (Conversation_summary
           (''system: You are a helpful voice assistant.'' @ newline
            @ ''user:  Book 10:30 please '' @ newline
            @ ''assistant: Earlier summary'' @ newline @ ''assistant: Booked.'')
           [] None)]"
  by code_simp

end
